theory Spec2Isabelle
  imports Main
begin

section \<open>Python values used by the components\<close>

text \<open>
  A Python \<open>dict\<close> keeps its keys unique and remembers the order in which they were first
  inserted. It is modelled as an association list in insertion order; a well-formed
  dictionary has distinct keys (\<open>distinct (map fst d)\<close>).
  Attribute values are strings or Python's \<open>None\<close>, hence \<open>string option\<close>.
\<close>

type_synonym 'v dict = "(string \<times> 'v) list"

type_synonym attrs = "string option dict"

text \<open>\<open>d[k] = v\<close>: an existing key keeps its position and gets the new value, a new key
  goes to the end.\<close>

primrec dict_set :: "'v dict \<Rightarrow> string \<Rightarrow> 'v \<Rightarrow> 'v dict" where
  "dict_set [] k v = [(k, v)]"
| "dict_set (p # d) k v = (if fst p = k then (k, v) # d else p # dict_set d k v)"

text \<open>\<open>d.update(e)\<close>, and also the spread \<open>{..., **e}\<close> of a dict literal: the entries of
  \<open>e\<close> are written one after the other.\<close>

primrec dict_update :: "'v dict \<Rightarrow> 'v dict \<Rightarrow> 'v dict" where
  "dict_update d [] = d"
| "dict_update d (p # e) = dict_update (dict_set d (fst p) (snd p)) e"

definition dict_get :: "'v dict \<Rightarrow> string \<Rightarrow> 'v \<Rightarrow> 'v" where
  "dict_get d k dflt = (case map_of d k of Some v \<Rightarrow> v | None \<Rightarrow> dflt)"

text \<open>\<open>d.pop(k, dflt)\<close> returns the value and removes the key from \<open>d\<close> itself; the model
  returns the value together with the dictionary that is left.\<close>

definition dict_pop :: "'v dict \<Rightarrow> string \<Rightarrow> 'v \<Rightarrow> 'v \<times> 'v dict" where
  "dict_pop d k dflt = (dict_get d k dflt, filter (\<lambda>p. fst p \<noteq> k) d)"

text \<open>The dict comprehension \<open>{f"hx_{key}": value for key, value in htmx.items()}\<close>.\<close>

primrec hx_items :: "attrs \<Rightarrow> string dict \<Rightarrow> attrs" where
  "hx_items a [] = a"
| "hx_items a (p # h) = hx_items (dict_set a (''hx_'' @ fst p) (Some (snd p))) h"

definition hx_dict :: "string dict \<Rightarrow> attrs" where
  "hx_dict h = hx_items [] h"

text \<open>The entries that the htmx loop writes, in order: key \<open>hx_\<close> + verb, value as given.\<close>

definition hx_entries :: "string dict \<Rightarrow> attrs" where
  "hx_entries h = map (\<lambda>p. (''hx_'' @ fst p, Some (snd p))) h"

text \<open>Formatting a value inside an f-string: \<open>None\<close> prints as the word \<open>None\<close>.\<close>

definition py_str :: "string option \<Rightarrow> string" where
  "py_str v = (case v of Some s \<Rightarrow> s | None \<Rightarrow> ''None'')"

text \<open>\<open>str.strip()\<close> removes leading and trailing whitespace. Characters are the 8-bit
  \<open>char\<close> of HOL; among those Python counts as whitespace the codes 9 to 13, 28 to 32,
  133 and 160.\<close>

definition is_space :: "char \<Rightarrow> bool" where
  "is_space c = (let n = (of_char c :: nat)
                 in (9 \<le> n \<and> n \<le> 13) \<or> (28 \<le> n \<and> n \<le> 32) \<or> n = 133 \<or> n = 160)"

definition strip :: "string \<Rightarrow> string" where
  "strip s = rev (dropWhile is_space (rev (dropWhile is_space s)))"

text \<open>\<open>" ".join(xs)\<close>.\<close>

fun join_sp :: "string list \<Rightarrow> string" where
  "join_sp [] = []"
| "join_sp [x] = x"
| "join_sp (x # y # ys) = x @ '' '' @ join_sp (y # ys)"

section \<open>Markup trees\<close>

text \<open>
  The element constructors of the markup library (\<open>Div\<close>, \<open>Button\<close>, \<open>Input\<close>, ...) take
  positional children and keyword arguments. A node records its tag, the children and the
  keyword arguments exactly as the component passes them, under the Python names
  (\<open>cls\<close>, \<open>fr\<close>, \<open>hx_post\<close>, \<open>aria_current\<close>). A child is a text, a node, or a Python tuple
  of children.

  \<open>Path\<close> is no element constructor: under \<open>from fasthtml.common import *\<close> the name is
  the path class of \<open>pathlib\<close>. A call of it is recorded as \<open>PyCall\<close> with the name and the
  keyword arguments of the call; what Python makes of it is not part of the model, and it
  is no element: it has no tag, no children and no attributes.
\<close>

datatype ft = Txt string | Tup "ft list" | FT string "ft list" attrs | PyCall string attrs

fun ft_tag :: "ft \<Rightarrow> string" where
  "ft_tag (FT t c kw) = t"
| "ft_tag _ = []"

fun ft_children :: "ft \<Rightarrow> ft list" where
  "ft_children (FT t c kw) = c"
| "ft_children (Tup c) = c"
| "ft_children (Txt s) = []"
| "ft_children (PyCall n kw) = []"

fun ft_kwargs :: "ft \<Rightarrow> attrs" where
  "ft_kwargs (FT t c kw) = kw"
| "ft_kwargs _ = []"

text \<open>The attribute an element carries: the markup library leaves out a keyword argument
  whose value is \<open>None\<close>, so such an attribute is absent, as is one never passed.\<close>

definition ft_attr :: "ft \<Rightarrow> string \<Rightarrow> string option" where
  "ft_attr n k = (case map_of (ft_kwargs n) k of Some (Some v) \<Rightarrow> Some v | _ \<Rightarrow> None)"

section \<open>buttons.py\<close>

text \<open>
  The dataclasses hold their dictionaries by reference. A record of a dataclass is therefore
  parametric in what stands for its two dictionaries, \<open>additional_attrs\<close> (type \<open>'a\<close>) and
  \<open>htmx\<close> (type \<open>'h\<close>): either the contents of the dictionaries (the object as one call sees
  it, types \<open>attrs\<close> and \<open>string dict\<close>), or references into a heap of dictionaries (types
  \<open>ref\<close>), which is what tells whether two objects share a dictionary.
\<close>

type_synonym ref = nat

record ('a, 'h) CustomButton =
  btn_label :: string
  btn_style :: string
  btn_type :: string
  btn_size :: string
  btn_pill :: bool
  btn_htmx :: 'h
  btn_additional_attrs :: 'a

type_synonym CustomButton_v = "(attrs, string dict) CustomButton"

type_synonym CustomButton_r = "(ref, ref) CustomButton"

text \<open>\<open>CustomButton(label)\<close> with the defaults of the dataclass.\<close>

definition CustomButton_new :: "string \<Rightarrow> CustomButton_v" where
  "CustomButton_new l =
    \<lparr>btn_label = l, btn_style = ''default'', btn_type = ''button'', btn_size = ''base'',
     btn_pill = False, btn_htmx = [], btn_additional_attrs = []\<rparr>"

definition style_default :: string where
  "style_default = ''text-white bg-blue-700 hover:bg-blue-800 focus:ring-4 focus:ring-blue-300 dark:bg-blue-600 dark:hover:bg-blue-700 focus:outline-none dark:focus:ring-blue-800''"

definition style_classes :: "string dict" where
  "style_classes =
    [(''default'', style_default),
     (''alternative'', ''text-gray-900 focus:outline-none bg-white border border-gray-200 hover:bg-gray-100 hover:text-blue-700 focus:z-10 focus:ring-4 focus:ring-gray-100 dark:focus:ring-gray-700 dark:bg-gray-800 dark:text-gray-400 dark:border-gray-600 dark:hover:text-white dark:hover:bg-gray-700''),
     (''dark'', ''text-white bg-gray-800 hover:bg-gray-900 focus:outline-none focus:ring-4 focus:ring-gray-300 dark:bg-gray-800 dark:hover:bg-gray-700 dark:focus:ring-gray-700 dark:border-gray-700''),
     (''light'', ''text-gray-900 bg-white border border-gray-300 focus:outline-none hover:bg-gray-100 focus:ring-4 focus:ring-gray-100 dark:bg-gray-800 dark:text-white dark:border-gray-600 dark:hover:bg-gray-700 dark:hover:border-gray-600 dark:focus:ring-gray-700''),
     (''green'', ''focus:outline-none text-white bg-green-700 hover:bg-green-800 focus:ring-4 focus:ring-green-300 dark:bg-green-600 dark:hover:bg-green-700 dark:focus:ring-green-800''),
     (''red'', ''focus:outline-none text-white bg-red-700 hover:bg-red-800 focus:ring-4 focus:ring-red-300 dark:bg-red-600 dark:hover:bg-red-700 dark:focus:ring-red-900''),
     (''yellow'', ''focus:outline-none text-white bg-yellow-400 hover:bg-yellow-500 focus:ring-4 focus:ring-yellow-300 dark:focus:ring-yellow-900''),
     (''purple'', ''focus:outline-none text-white bg-purple-700 hover:bg-purple-800 focus:ring-4 focus:ring-purple-300 dark:bg-purple-600 dark:hover:bg-purple-700 dark:focus:ring-purple-900'')]"

definition size_base :: string where
  "size_base = ''px-5 py-2.5 text-sm''"

definition size_classes :: "string dict" where
  "size_classes =
    [(''xs'', ''px-3 py-2 text-xs''),
     (''sm'', ''px-3 py-2 text-sm''),
     (''base'', size_base),
     (''lg'', ''px-5 py-3 text-base''),
     (''xl'', ''px-6 py-3.5 text-base'')]"

text \<open>\<open>self._style_classes.get(self.style, self._style_classes["default"])\<close> and the same
  for the size; the subscripts \<open>["default"]\<close> and \<open>["base"]\<close> find their keys in the tables
  above, so they cannot raise.\<close>

definition resolve_style :: "string \<Rightarrow> string" where
  "resolve_style s = dict_get style_classes s style_default"

definition resolve_size :: "string \<Rightarrow> string" where
  "resolve_size s = dict_get size_classes s size_base"

definition button_classes :: "CustomButton_v \<Rightarrow> string list" where
  "button_classes b =
    [resolve_style (btn_style b),
     resolve_size (btn_size b),
     ''font-medium'',
     (if btn_pill b then ''rounded-full'' else ''rounded-lg''),
     ''text-center'',
     ''me-2 mb-2'']"

text \<open>The attribute dictionary of \<open>CustomButton.__call__\<close>: the literal
  \<open>{"type": ..., "cls": ..., **additional_attrs}\<close>, then one write per htmx entry.\<close>

definition button_attrs :: "CustomButton_v \<Rightarrow> attrs" where
  "button_attrs b =
    hx_items
      (dict_update
         [(''type'', Some (btn_type b)), (''cls'', Some (join_sp (button_classes b)))]
         (btn_additional_attrs b))
      (btn_htmx b)"

definition CustomButton_call :: "CustomButton_v \<Rightarrow> ft" where
  "CustomButton_call b = FT ''button'' [Txt (btn_label b)] (button_attrs b)"

section \<open>floating_form.py\<close>

datatype error = IndexError

record ('a, 'h) FormField =
  ff_name :: string
  ff_label :: string
  ff_type :: string
  ff_pattern :: "string option"
  ff_required :: bool
  ff_placeholder :: string
  ff_additional_attrs :: 'a
  ff_htmx :: 'h

record ('a, 'h) FormSection =
  fs_fields :: "('a, 'h) FormField list"
  fs_layout :: string

record ('a, 'h) FloatingLabelForm =
  flf_sections :: "('a, 'h) FormSection list"
  flf_submit_label :: string
  flf_cls :: string
  flf_htmx :: 'h
  flf_custom_submit_button :: "('a, 'h) CustomButton option"

type_synonym FormField_v = "(attrs, string dict) FormField"

type_synonym FormField_r = "(ref, ref) FormField"

type_synonym FormSection_v = "(attrs, string dict) FormSection"

type_synonym FormSection_r = "(ref, ref) FormSection"

type_synonym FloatingLabelForm_v = "(attrs, string dict) FloatingLabelForm"

type_synonym FloatingLabelForm_r = "(ref, ref) FloatingLabelForm"

text \<open>
  The heap holds the dictionaries that the objects refer to. The two kinds of dictionary
  have different declared types (\<open>Dict[str, Any]\<close> for \<open>additional_attrs\<close>, \<open>Dict[str, str]\<close>
  for \<open>htmx\<close>) and are kept apart; two references of one kind that are equal stand for one
  and the same dictionary. The code assigns to no attribute of a \<open>FormField\<close> or
  \<open>FormSection\<close> object, so the same object at two places is the same record at both.
\<close>

record heap =
  attrs_of :: "ref \<Rightarrow> attrs"
  htmx_of :: "ref \<Rightarrow> string dict"

definition empty_heap :: heap where
  "empty_heap = \<lparr>attrs_of = (\<lambda>r. []), htmx_of = (\<lambda>r. [])\<rparr>"

text \<open>An object as a call sees it: its dictionaries read from the heap.\<close>

definition field_at :: "heap \<Rightarrow> FormField_r \<Rightarrow> FormField_v" where
  "field_at h f =
    \<lparr>ff_name = ff_name f, ff_label = ff_label f, ff_type = ff_type f,
     ff_pattern = ff_pattern f, ff_required = ff_required f,
     ff_placeholder = ff_placeholder f,
     ff_additional_attrs = attrs_of h (ff_additional_attrs f),
     ff_htmx = htmx_of h (ff_htmx f)\<rparr>"

definition button_at :: "heap \<Rightarrow> CustomButton_r \<Rightarrow> CustomButton_v" where
  "button_at h b =
    \<lparr>btn_label = btn_label b, btn_style = btn_style b, btn_type = btn_type b,
     btn_size = btn_size b, btn_pill = btn_pill b,
     btn_htmx = htmx_of h (btn_htmx b),
     btn_additional_attrs = attrs_of h (btn_additional_attrs b)\<rparr>"

definition section_at :: "heap \<Rightarrow> FormSection_r \<Rightarrow> FormSection_v" where
  "section_at h s = \<lparr>fs_fields = map (field_at h) (fs_fields s), fs_layout = fs_layout s\<rparr>"

definition form_at :: "heap \<Rightarrow> FloatingLabelForm_r \<Rightarrow> FloatingLabelForm_v" where
  "form_at h form =
    \<lparr>flf_sections = map (section_at h) (flf_sections form),
     flf_submit_label = flf_submit_label form, flf_cls = flf_cls form,
     flf_htmx = htmx_of h (flf_htmx form),
     flf_custom_submit_button = map_option (button_at h) (flf_custom_submit_button form)\<rparr>"

text \<open>\<open>FormField(name, label)\<close> and \<open>FloatingLabelForm(sections)\<close> with the defaults of
  the dataclasses: as contents (the dictionaries empty), and as objects whose dictionaries
  are the given references.\<close>

definition FormField_new :: "string \<Rightarrow> string \<Rightarrow> FormField_v" where
  "FormField_new n l =
    \<lparr>ff_name = n, ff_label = l, ff_type = ''text'', ff_pattern = None, ff_required = True,
     ff_placeholder = '' '', ff_additional_attrs = [], ff_htmx = []\<rparr>"


definition FormField_ref :: "string \<Rightarrow> string \<Rightarrow> ref \<Rightarrow> ref \<Rightarrow> FormField_r" where
  "FormField_ref n l a x =
    \<lparr>ff_name = n, ff_label = l, ff_type = ''text'', ff_pattern = None, ff_required = True,
     ff_placeholder = '' '', ff_additional_attrs = a, ff_htmx = x\<rparr>"

definition FloatingLabelForm_ref :: "FormSection_r list \<Rightarrow> ref \<Rightarrow> FloatingLabelForm_r" where
  "FloatingLabelForm_ref ss x =
    \<lparr>flf_sections = ss, flf_submit_label = ''Submit'', flf_cls = ''max-w-md mx-auto'',
     flf_htmx = x, flf_custom_submit_button = None\<rparr>"

definition default_cls :: string where
  "default_cls = ''block py-2.5 px-0 w-full text-sm text-gray-900 bg-transparent border-0 border-b-2 border-gray-300 appearance-none dark:text-white dark:border-gray-600 dark:focus:border-blue-500 focus:outline-none focus:ring-0 focus:border-blue-600 peer''"

definition label_cls :: string where
  "label_cls = ''peer-focus:font-medium absolute text-sm text-gray-500 dark:text-gray-400 duration-300 transform -translate-y-6 scale-75 top-3 -z-10 origin-[0] peer-focus:start-0 rtl:peer-focus:translate-x-1/4 rtl:peer-focus:left-auto peer-focus:text-blue-600 peer-focus:dark:text-blue-500 peer-placeholder-shown:scale-100 peer-placeholder-shown:translate-y-0 peer-focus:scale-75 peer-focus:-translate-y-6''"

text \<open>The dictionary \<open>input_attrs\<close> of \<open>floating_input\<close> as it is when \<open>Input\<close> is
  called, given what \<open>pop("cls", "")\<close> returned and left behind.\<close>

definition input_attrs_of :: "FormField_v \<Rightarrow> string option \<Rightarrow> attrs \<Rightarrow> attrs" where
  "input_attrs_of f additional_cls rest =
    dict_update
      (dict_update
         (dict_set
            [(''type'', Some (ff_type f)),
             (''name'', Some (ff_name f)),
             (''id'', Some (''floating_'' @ ff_name f)),
             (''placeholder'', Some (ff_placeholder f)),
             (''required'', if ff_required f then Some [] else None),
             (''pattern'', ff_pattern f)]
            ''cls'' (Some (strip (default_cls @ '' '' @ py_str additional_cls))))
         (hx_dict (ff_htmx f)))
      rest"

definition floating_input_attrs :: "FormField_v \<Rightarrow> attrs" where
  "floating_input_attrs f =
    (case dict_pop (ff_additional_attrs f) ''cls'' (Some []) of
       (additional_cls, rest) \<Rightarrow> input_attrs_of f additional_cls rest)"

text \<open>\<open>floating_input\<close> on the contents of a field: it returns the rendered field; the \<open>pop\<close>
  has changed the field's \<open>additional_attrs\<close>, so the contents after the call are returned
  with it.\<close>

definition floating_input :: "FormField_v \<Rightarrow> ft \<times> FormField_v" where
  "floating_input f =
    (FT ''div''
       [FT ''input'' [] (floating_input_attrs f),
        FT ''label'' [Txt (ff_label f)]
          [(''fr'', Some (''floating_'' @ ff_name f)), (''cls'', Some label_cls)],
        FT ''div'' [] [(''cls'', Some ''validation-message'')]]
       [(''cls'', Some ''relative z-0 w-full mb-5 group'')],
     f\<lparr>ff_additional_attrs := snd (dict_pop (ff_additional_attrs f) ''cls'' (Some []))\<rparr>)"

definition two_column_inputs :: "ft \<Rightarrow> ft \<Rightarrow> ft" where
  "two_column_inputs input1 input2 =
    FT ''div'' [input1, input2] [(''cls'', Some ''grid md:grid-cols-2 md:gap-6'')]"

text \<open>\<open>floating_input\<close> on a field object: what the \<open>pop\<close> left of the dictionary is
  written back to the heap, where every object that refers to the dictionary sees it.\<close>

definition floating_input_obj :: "heap \<Rightarrow> FormField_r \<Rightarrow> ft \<times> heap" where
  "floating_input_obj h f =
    (case floating_input (field_at h f) of
       (n, f') \<Rightarrow>
         (n, h\<lparr>attrs_of := (attrs_of h)(ff_additional_attrs f := ff_additional_attrs f')\<rparr>))"

text \<open>The list comprehension \<open>[self.floating_input(field) for field in section.fields]\<close>:
  one field after the other, each on the heap that the one before left.\<close>

fun floating_inputs :: "heap \<Rightarrow> FormField_r list \<Rightarrow> ft list \<times> heap" where
  "floating_inputs h [] = ([], h)"
| "floating_inputs h (f # fs) =
    (case floating_input_obj h f of
       (n, h1) \<Rightarrow> (case floating_inputs h1 fs of (ns, h2) \<Rightarrow> (n # ns, h2)))"

text \<open>\<open>render_section\<close>: the subscripts \<open>fields[0]\<close> and \<open>fields[1]\<close> raise \<open>IndexError\<close>
  on a list that is too short; the arguments are evaluated left to right, so the first
  field has been rendered (and its dictionary changed) when the second subscript raises,
  and the second field is rendered on the heap that the first one left.\<close>

definition render_section :: "heap \<Rightarrow> FormSection_r \<Rightarrow> (error + ft) \<times> heap" where
  "render_section h s =
    (if fs_layout s = ''double'' then
       (case fs_fields s of
          [] \<Rightarrow> (Inl IndexError, h)
        | [f0] \<Rightarrow> (Inl IndexError, snd (floating_input_obj h f0))
        | f0 # f1 # others \<Rightarrow>
            (case floating_input_obj h f0 of
               (n0, h1) \<Rightarrow>
                 (case floating_input_obj h1 f1 of
                    (n1, h2) \<Rightarrow> (Inr (two_column_inputs n0 n1), h2))))
     else
       (case floating_inputs h (fs_fields s) of (ns, h') \<Rightarrow> (Inr (FT ''div'' ns []), h')))"

text \<open>The list comprehension over the sections: it stops at the first section that raises,
  and the sections after it are not rendered.\<close>

fun render_sections :: "heap \<Rightarrow> FormSection_r list \<Rightarrow> (error + ft list) \<times> heap" where
  "render_sections h [] = (Inr [], h)"
| "render_sections h (s # ss) =
    (case render_section h s of
       (Inl e, h1) \<Rightarrow> (Inl e, h1)
     | (Inr n, h1) \<Rightarrow>
         (case render_sections h1 ss of
            (Inl e, h2) \<Rightarrow> (Inl e, h2)
          | (Inr ns, h2) \<Rightarrow> (Inr (n # ns), h2)))"

definition default_submit_cls :: string where
  "default_submit_cls = ''text-white bg-blue-700 hover:bg-blue-800 focus:ring-4 focus:outline-none focus:ring-blue-300 font-medium rounded-lg text-sm w-full sm:w-auto px-5 py-2.5 text-center dark:bg-blue-600 dark:hover:bg-blue-700 dark:focus:ring-blue-800''"

text \<open>\<open>render_submit_button\<close> on the contents of a form: it assigns to the custom button's
  \<open>type\<close> and updates its \<open>htmx\<close> in place; the contents after the call are returned with the
  node.\<close>

definition render_submit_button :: "FloatingLabelForm_v \<Rightarrow> ft \<times> FloatingLabelForm_v" where
  "render_submit_button form =
    (case flf_custom_submit_button form of
       Some button \<Rightarrow>
         (let button' = button\<lparr>btn_type := ''submit'',
                                 btn_htmx := dict_update (btn_htmx button) (flf_htmx form)\<rparr>
          in (CustomButton_call button', form\<lparr>flf_custom_submit_button := Some button'\<rparr>))
     | None \<Rightarrow>
         (FT ''button'' [Txt (flf_submit_label form)]
            [(''type'', Some ''submit''), (''cls'', Some default_submit_cls)],
          form))"

text \<open>\<open>render_submit_button\<close> on a form object: \<open>button.type = "submit"\<close> changes the
  button object, \<open>button.htmx.update(self.htmx)\<close> changes the button's dictionary in the
  heap, and \<open>button()\<close> renders the button as it then is.\<close>

definition render_submit_button_obj ::
  "heap \<Rightarrow> FloatingLabelForm_r \<Rightarrow> ft \<times> heap \<times> FloatingLabelForm_r" where
  "render_submit_button_obj h form =
    (case flf_custom_submit_button form of
       Some button \<Rightarrow>
         (let button' = button\<lparr>btn_type := ''submit''\<rparr>;
              h' = h\<lparr>htmx_of := (htmx_of h)
                     (btn_htmx button :=
                        dict_update (htmx_of h (btn_htmx button)) (htmx_of h (flf_htmx form)))\<rparr>
          in (CustomButton_call (button_at h' button'), h',
              form\<lparr>flf_custom_submit_button := Some button'\<rparr>))
     | None \<Rightarrow>
         (FT ''button'' [Txt (flf_submit_label form)]
            [(''type'', Some ''submit''), (''cls'', Some default_submit_cls)],
          h, form))"

text \<open>\<open>FloatingLabelForm.__xt__\<close>: the form's attributes are computed first, then the
  sections are rendered in order, then the submit button; an exception leaves the heap as
  it was when it was raised.\<close>

definition FloatingLabelForm_xt ::
  "heap \<Rightarrow> FloatingLabelForm_r \<Rightarrow> (error + ft) \<times> heap \<times> FloatingLabelForm_r" where
  "FloatingLabelForm_xt h form =
    (let form_attrs =
           dict_update [(''cls'', Some (flf_cls form))] (hx_dict (htmx_of h (flf_htmx form)))
     in case render_sections h (flf_sections form) of
          (Inl e, h1) \<Rightarrow> (Inl e, h1, form)
        | (Inr ns, h1) \<Rightarrow>
            (case render_submit_button_obj h1 form of
               (btn, h2, form') \<Rightarrow> (Inr (FT ''form'' (ns @ [btn]) form_attrs), h2, form')))"

section \<open>navbar.py\<close>

record NavMenuItem =
  nmi_text :: string
  nmi_href :: string
  nmi_active :: bool
  nmi_cls :: string

record NavBar =
  nb_logo_src :: string
  nb_brand_name :: string
  nb_menu_items :: "NavMenuItem list"
  nb_cta_text :: string
  nb_brand_href :: string
  nb_additional_buttons :: "attrs list"
  nb_cls :: string
  nb_htmx :: "string dict"

definition base_cls :: string where
  "base_cls = ''block py-2 px-3 md:p-0 rounded hover:bg-gray-100 md:hover:bg-transparent md:hover:text-blue-700 md:dark:hover:text-blue-500 dark:text-white dark:hover:bg-gray-700 dark:hover:text-white md:dark:hover:bg-transparent dark:border-gray-700''"

definition active_cls :: string where
  "active_cls = ''text-white bg-blue-700 md:bg-transparent md:text-blue-700 md:dark:text-blue-500''"

definition inactive_cls :: string where
  "inactive_cls = ''text-gray-900''"

definition render_menu_item :: "NavMenuItem \<Rightarrow> ft" where
  "render_menu_item item =
    FT ''li''
      [FT ''a'' [Txt (nmi_text item)]
         [(''href'', Some (nmi_href item)),
          (''cls'', Some (strip (base_cls @ '' ''
                           @ (if nmi_active item then active_cls else inactive_cls)
                           @ '' '' @ nmi_cls item))),
          (''aria_current'', if nmi_active item then Some ''page'' else None)]]
      []"

definition render_menu :: "NavBar \<Rightarrow> ft" where
  "render_menu nb =
    FT ''div''
      [FT ''ul'' (map render_menu_item (nb_menu_items nb))
         [(''cls'', Some ''flex flex-col font-medium p-4 md:p-0 mt-4 border border-gray-100 rounded-lg bg-gray-50 md:space-x-8 rtl:space-x-reverse md:flex-row md:mt-0 md:border-0 md:bg-white dark:bg-gray-800 md:dark:bg-gray-900 dark:border-gray-700'')]]
      [(''cls'', Some ''items-center justify-between hidden w-full md:flex md:w-auto md:order-1''),
       (''id'', Some ''navbar-cta'')]"

definition render_mobile_menu_button :: "NavBar \<Rightarrow> ft" where
  "render_mobile_menu_button nb =
    FT ''button''
      [FT ''span'' [Txt ''Open main menu''] [(''cls'', Some ''sr-only'')],
       FT ''svg''
         [PyCall ''Path''
            [(''stroke'', Some ''currentColor''), (''stroke_linecap'', Some ''round''),
             (''stroke_linejoin'', Some ''round''), (''stroke_width'', Some ''2''),
             (''d'', Some ''M1 1h15M1 7h15M1 13h15'')]]
         [(''cls'', Some ''w-5 h-5''), (''aria_hidden'', Some ''true''),
          (''xmlns'', Some ''http://www.w3.org/2000/svg''), (''fill'', Some ''none''),
          (''viewbox'', Some ''0 0 17 14'')]]
      [(''data_collapse_toggle'', Some ''navbar-cta''),
       (''type'', Some ''button''),
       (''cls'', Some ''inline-flex items-center p-2 w-10 h-10 justify-center text-sm text-gray-500 rounded-lg md:hidden hover:bg-gray-100 focus:outline-none focus:ring-2 focus:ring-gray-200 dark:text-gray-400 dark:hover:bg-gray-700 dark:focus:ring-gray-600''),
       (''aria_controls'', Some ''navbar-cta''),
       (''aria_expanded'', Some ''false'')]"

definition render_buttons :: "NavBar \<Rightarrow> ft" where
  "render_buttons nb =
    FT ''div''
      ((FT ''button'' [Txt (nb_cta_text nb)]
          [(''type'', Some ''button''),
           (''cls'', Some ''text-white bg-blue-700 hover:bg-blue-800 focus:ring-4 focus:outline-none focus:ring-blue-300 font-medium rounded-lg text-sm px-4 py-2 text-center dark:bg-blue-600 dark:hover:bg-blue-700 dark:focus:ring-blue-800'')]
        # map (\<lambda>btn. FT ''button'' [] btn) (nb_additional_buttons nb))
       @ [render_mobile_menu_button nb])
      [(''cls'', Some ''flex md:order-2 space-x-3 md:space-x-0 rtl:space-x-reverse'')]"

definition render_brand :: "NavBar \<Rightarrow> ft" where
  "render_brand nb =
    FT ''a''
      [FT ''img'' []
         [(''src'', Some (nb_logo_src nb)), (''cls'', Some ''h-8''),
          (''alt'', Some (nb_brand_name nb @ '' Logo''))],
       FT ''span'' [Txt (nb_brand_name nb)]
         [(''cls'', Some ''self-center text-2xl font-semibold whitespace-nowrap dark:text-white'')]]
      [(''href'', Some (nb_brand_href nb)),
       (''cls'', Some ''flex items-center space-x-3 rtl:space-x-reverse'')]"

definition render_container :: "NavBar \<Rightarrow> ft" where
  "render_container nb =
    FT ''div'' [render_brand nb, render_buttons nb, render_menu nb]
      [(''cls'', Some ''max-w-screen-xl flex flex-wrap items-center justify-between mx-auto p-4'')]"

definition NavBar_xt :: "NavBar \<Rightarrow> ft" where
  "NavBar_xt nb =
    FT ''nav'' [render_container nb]
      (dict_update [(''cls'', Some (nb_cls nb))] (hx_dict (nb_htmx nb)))"

section \<open>accordion.py\<close>

text \<open>The identifier of an item is a field of the item: given by the caller, or drawn
  when the item is constructed.\<close>

record AccordionItem =
  ai_title :: string
  ai_content :: "string list"
  ai_id :: string

record Accordion =
  acc_items :: "AccordionItem list"

definition accordion_header :: "AccordionItem \<Rightarrow> ft" where
  "accordion_header it =
    FT ''h2''
      [FT ''button''
         [FT ''span'' [Txt (ai_title it)] [],
          FT ''svg''
            [PyCall ''Path''
               [(''stroke'', Some ''currentColor''), (''stroke_linecap'', Some ''round''),
                (''stroke_linejoin'', Some ''round''), (''stroke_width'', Some ''2''),
                (''d'', Some ''M9 5 5 1 1 5'')]]
            [(''data_accordion_icon'', Some []),
             (''cls'', Some ''w-3 h-3 rotate-180 shrink-0''),
             (''aria_hidden'', Some ''true''),
             (''xmlns'', Some ''http://www.w3.org/2000/svg''),
             (''fill'', Some ''none''),
             (''viewbox'', Some ''0 0 10 6'')]]
         [(''type'', Some ''button''),
          (''cls'', Some ''flex items-center justify-between w-full p-5 font-medium rtl:text-right text-gray-500 border border-b-0 border-gray-200 rounded-t-xl focus:ring-4 focus:ring-gray-200 dark:focus:ring-gray-800 dark:border-gray-700 dark:text-gray-400 hover:bg-gray-100 dark:hover:bg-gray-800 gap-3''),
          (''data_accordion_target'', Some (''#'' @ ai_id it @ ''-body'')),
          (''aria_expanded'', Some ''false''),
          (''aria_controls'', Some (ai_id it @ ''-body''))]]
      [(''id'', Some (ai_id it @ ''-heading''))]"

definition accordion_body :: "AccordionItem \<Rightarrow> ft" where
  "accordion_body it =
    FT ''div''
      [FT ''div''
         (map (\<lambda>content. FT ''p'' [Txt content]
                 [(''cls'', Some ''mb-2 text-gray-500 dark:text-gray-400'')])
            (ai_content it))
         [(''cls'', Some ''p-5 border border-b-0 border-gray-200 dark:border-gray-700 dark:bg-gray-900'')]]
      [(''id'', Some (ai_id it @ ''-body'')),
       (''cls'', Some ''hidden''),
       (''aria_labelledby'', Some (ai_id it @ ''-heading''))]"

text \<open>\<open>AccordionItem.__xt__\<close> returns the pair (header, body).\<close>

definition AccordionItem_xt :: "AccordionItem \<Rightarrow> ft \<times> ft" where
  "AccordionItem_xt it = (accordion_header it, accordion_body it)"

definition Accordion_xt :: "Accordion \<Rightarrow> ft" where
  "Accordion_xt acc =
    FT ''div''
      (map (\<lambda>it. case AccordionItem_xt it of (h, b) \<Rightarrow> Tup [h, b]) (acc_items acc))
      [(''id'', Some ''accordion-collapse''), (''data_accordion'', Some ''collapse'')]"

text \<open>The identifiers a tree carries, in document order.\<close>

fun ft_ids :: "ft \<Rightarrow> string list" where
  "ft_ids (Txt s) = []"
| "ft_ids (PyCall n kw) = []"
| "ft_ids (Tup c) = concat (map ft_ids c)"
| "ft_ids (FT t c kw) =
    (case map_of kw ''id'' of Some (Some v) \<Rightarrow> [v] | _ \<Rightarrow> []) @ concat (map ft_ids c)"

section \<open>Well-formed dictionaries and key lists\<close>

text \<open>A dictionary value has each key once.\<close>

definition wf_dict :: "'v dict \<Rightarrow> bool" where
  "wf_dict d = distinct (map fst d)"

text \<open>The keys of \<open>input_attrs\<close> in \<open>floating_input\<close> before the htmx entries are added, in
  order, and the keys that the htmx entries are written under.\<close>

definition input_base_keys :: "string list" where
  "input_base_keys = [''type'', ''name'', ''id'', ''placeholder'', ''required'', ''pattern'', ''cls'']"

definition hx_keys :: "string dict \<Rightarrow> string list" where
  "hx_keys h = map (\<lambda>k. ''hx_'' @ k) (map fst h)"

section \<open>Dictionaries: lookup and key order after writes\<close>

lemma map_of_dict_set: "map_of (dict_set d k v) = (map_of d)(k \<mapsto> v)"
  by (induction d) auto

lemma keys_dict_set:
  "map fst (dict_set d k v) = (if k \<in> set (map fst d) then map fst d else map fst d @ [k])"
  by (induction d) auto


lemma map_add_upd_left_fresh: "n k = None \<Longrightarrow> (m(k \<mapsto> v)) ++ n = (m ++ n)(k \<mapsto> v)"
  by (rule ext) (simp add: map_add_def split: option.splits)

lemma map_of_dict_update:
  "distinct (map fst e) \<Longrightarrow> map_of (dict_update d e) = map_of d ++ map_of e"
proof (induction e arbitrary: d)
  case Nil
  then show ?case by simp
next
  case (Cons p e)
  then have fresh: "map_of e (fst p) = None"
    by (simp add: map_of_eq_None_iff)
  have "map_of (dict_update d (p # e)) = (map_of d)(fst p \<mapsto> snd p) ++ map_of e"
    using Cons by (simp add: map_of_dict_set)
  also have "\<dots> = (map_of d ++ map_of e)(fst p \<mapsto> snd p)"
    using fresh by (rule map_add_upd_left_fresh)
  also have "\<dots> = map_of d ++ map_of (p # e)"
    by (cases p) simp
  finally show ?case .
qed

lemma keyset_dict_set: "fst ` set (dict_set d k v) = insert k (fst ` set d)"
  by (induction d) auto

lemma keys_dict_update:
  "distinct (map fst e) \<Longrightarrow>
   map fst (dict_update d e) = map fst d @ filter (\<lambda>k. k \<notin> set (map fst d)) (map fst e)"
proof (induction e arbitrary: d)
  case Nil
  then show ?case by simp
next
  case (Cons p e)
  show ?case
  proof (cases "fst p \<in> set (map fst d)")
    case True
    then have "insert (fst p) (fst ` set d) = fst ` set d" by auto
    then show ?thesis using True Cons by (simp add: keys_dict_set keyset_dict_set)
  next
    case False
    have "filter (\<lambda>k. k \<noteq> fst p \<and> k \<notin> fst ` set d) (map fst e)
          = filter (\<lambda>k. k \<notin> fst ` set d) (map fst e)"
      using Cons.prems by (intro filter_cong) (auto intro: rev_image_eqI)
    then show ?thesis using False Cons by (simp add: keys_dict_set keyset_dict_set)
  qed
qed

lemma hx_items_update: "hx_items a h = dict_update a (hx_entries h)"
  by (induction h arbitrary: a) (simp_all add: hx_entries_def)

lemma keys_hx_entries: "map fst (hx_entries h) = map (\<lambda>k. ''hx_'' @ k) (map fst h)"
  by (simp add: hx_entries_def comp_def)

lemma distinct_hx_entries: "distinct (map fst h) \<Longrightarrow> distinct (map fst (hx_entries h))"
  by (simp add: keys_hx_entries distinct_map inj_on_def)

lemma map_of_hx_entries: "map_of (hx_entries h) (''hx_'' @ k) = map_option Some (map_of h k)"
  by (induction h) (auto simp: hx_entries_def)

lemma map_of_hx_entries_other: "k \<notin> (\<lambda>k. ''hx_'' @ k) ` fst ` set h \<Longrightarrow> map_of (hx_entries h) k = None"
  by (simp add: map_of_eq_None_iff keys_hx_entries [symmetric] image_image hx_entries_def)

lemma hx_dict_entries: "distinct (map fst h) \<Longrightarrow> map_of (hx_dict h) = map_of (hx_entries h)"
  by (simp add: hx_dict_def hx_items_update map_of_dict_update distinct_hx_entries)

lemma keys_hx_dict: "distinct (map fst h) \<Longrightarrow> map fst (hx_dict h) = map (\<lambda>k. ''hx_'' @ k) (map fst h)"
  using keys_dict_update [OF distinct_hx_entries, of h "[]"]
  by (simp add: hx_dict_def hx_items_update keys_hx_entries)

lemma keyset_dict_update: "fst ` set (dict_update d e) = fst ` set d \<union> fst ` set e"
  by (induction e arbitrary: d) (auto simp: keyset_dict_set)

lemma map_of_dict_update_other: "k \<notin> fst ` set e \<Longrightarrow> map_of (dict_update d e) k = map_of d k"
  by (induction e arbitrary: d) (auto simp: map_of_dict_set)


lemma keyset_hx_dict: "fst ` set (hx_dict h) = (\<lambda>k. ''hx_'' @ k) ` fst ` set h"
  by (simp add: hx_dict_def hx_items_update keyset_dict_update hx_entries_def image_image)

lemma cls_not_hx: "''cls'' \<notin> fst ` set (hx_dict h)"
  by (auto simp: keyset_hx_dict)

lemma map_of_without: "map_of (filter (\<lambda>p. fst p \<noteq> c) d) k = (if k = c then None else map_of d k)"
  by (induction d) auto

lemma wf_dict_without: "wf_dict d \<Longrightarrow> wf_dict (filter (\<lambda>p. fst p \<noteq> c) d)"
  by (simp add: wf_dict_def distinct_map_filter)

lemma wf_hx_dict: "wf_dict h \<Longrightarrow> wf_dict (hx_dict h)"
  by (simp add: wf_dict_def keys_hx_dict distinct_map inj_on_def)

lemma keys_without_filtered:
  "\<not> P c \<Longrightarrow> filter P (map fst (filter (\<lambda>p. fst p \<noteq> c) d)) = filter P (map fst d)"
  by (induction d) auto

section \<open>Stripping\<close>

lemma strip_keeps_front:
  assumes "s \<noteq> []" "\<not> is_space (hd s)" "\<not> is_space (last s)"
  shows "strip (s @ '' '' @ e) =
         (if \<forall>c \<in> set e. is_space c then s else s @ '' '' @ rev (dropWhile is_space (rev e)))"
proof -
  obtain x xs where s: "s = x # xs" using assms(1) by (cases s) auto
  have front: "dropWhile is_space (s @ CHR '' '' # e) = s @ CHR '' '' # e"
    using assms(2) by (simp add: s)
  have sp: "is_space CHR '' ''" by (simp add: is_space_def)
  have tail: "dropWhile is_space (rev s) = rev s"
    using assms(1,3) by (cases "rev s") (auto simp: last_rev hd_rev dest: arg_cong [where f=hd])
  show ?thesis
  proof (cases "\<forall>c \<in> set e. is_space c")
    case True
    then have "dropWhile is_space (rev e @ CHR '' '' # rev s) = dropWhile is_space (CHR '' '' # rev s)"
      by (intro dropWhile_append2) auto
    then have "dropWhile is_space (rev e @ CHR '' '' # rev s) = rev s"
      using sp tail by simp
    then show ?thesis using True by (simp add: strip_def front)
  next
    case False
    then obtain c where "c \<in> set (rev e)" "\<not> is_space c" by auto
    then have "dropWhile is_space (rev e @ CHR '' '' # rev s) = dropWhile is_space (rev e) @ CHR '' '' # rev s"
      by (rule dropWhile_append1)
    then show ?thesis using False by (simp add: strip_def front)
  qed
qed

section \<open>Style and size resolution\<close>

lemma style_default_in_table: "map_of style_classes ''default'' = Some style_default"
  by (simp add: style_classes_def)

lemma size_base_in_table: "map_of size_classes ''base'' = Some size_base"
  by (simp add: size_classes_def)

lemma dict_get_cases: "dict_get d k dflt = dflt \<or> dict_get d k dflt \<in> snd ` set d"
  by (auto simp: dict_get_def split: option.splits dest!: map_of_SomeD intro: rev_image_eqI)

lemma style_values_nonempty: "\<forall>c \<in> snd ` set style_classes. c \<noteq> []"
  by (simp add: style_classes_def style_default_def)

lemma size_values_nonempty: "\<forall>c \<in> snd ` set size_classes. c \<noteq> []"
  by (simp add: size_classes_def size_base_def)

lemma resolve_style_nonempty: "resolve_style s \<noteq> []"
  using dict_get_cases [of style_classes s style_default] style_values_nonempty
  by (auto simp: resolve_style_def style_default_def)

lemma resolve_size_nonempty: "resolve_size z \<noteq> []"
  using dict_get_cases [of size_classes z size_base] size_values_nonempty
  by (auto simp: resolve_size_def size_base_def)

lemma dict_get_absent: "k \<notin> fst ` set d \<Longrightarrow> dict_get d k dflt = dflt"
  by (simp add: dict_get_def map_of_eq_None_iff [THEN iffD2])

text \<open>
  C9. Style and size resolution never fail: every string resolves to a non-empty class
  string, a style that is no key of the style table resolves to the class of
  \<open>default\<close>, and a size that is no key of the size table to the class of \<open>base\<close>.
\<close>

theorem resolve_total_with_fallback:
  "resolve_style s \<noteq> [] \<and> resolve_size z \<noteq> []
   \<and> (s \<notin> fst ` set style_classes \<longrightarrow>
        resolve_style s = style_default \<and> map_of style_classes ''default'' = Some style_default)
   \<and> (z \<notin> fst ` set size_classes \<longrightarrow>
        resolve_size z = size_base \<and> map_of size_classes ''base'' = Some size_base)"
  using resolve_style_nonempty [of s] resolve_size_nonempty [of z]
  by (simp add: resolve_style_def resolve_size_def dict_get_absent
      style_default_in_table size_base_in_table)

theorem resolve_total_with_fallback_witness:
  "''neon'' \<notin> fst ` set style_classes \<and> ''huge'' \<notin> fst ` set size_classes
   \<and> resolve_style ''neon'' = style_default \<and> resolve_size ''huge'' = size_base
   \<and> resolve_style ''neon'' \<noteq> [] \<and> resolve_size ''huge'' \<noteq> []"
proof -
  have s: "''neon'' \<notin> fst ` set style_classes" by (simp add: style_classes_def)
  have z: "''huge'' \<notin> fst ` set size_classes" by (simp add: size_classes_def)
  show ?thesis
    using s z resolve_total_with_fallback [of "''neon''" "''huge''"] by auto
qed

section \<open>Accordion items\<close>

text \<open>
  C8. In the rendered header of every accordion item the toggle button carries the
  control-target attribute \<open>#<id>-body\<close>, \<open>aria_controls\<close> equal to \<open><id>-body\<close> and
  \<open>aria_expanded\<close> equal to \<open>false\<close>; the header has the identifier \<open><id>-heading\<close>; the
  body has the identifier \<open><id>-body\<close>, the class \<open>hidden\<close>, and is labelled by
  \<open><id>-heading\<close>.
\<close>

theorem accordion_item_links:
  "\<exists>btn. ft_children (fst (AccordionItem_xt it)) = [btn]
     \<and> ft_tag btn = ''button''
     \<and> ft_attr btn ''data_accordion_target'' = Some (''#'' @ ai_id it @ ''-body'')
     \<and> ft_attr btn ''aria_controls'' = Some (ai_id it @ ''-body'')
     \<and> ft_attr btn ''aria_expanded'' = Some ''false''
     \<and> ft_attr (fst (AccordionItem_xt it)) ''id'' = Some (ai_id it @ ''-heading'')
     \<and> ft_attr (snd (AccordionItem_xt it)) ''id'' = Some (ai_id it @ ''-body'')
     \<and> ft_attr (snd (AccordionItem_xt it)) ''cls'' = Some ''hidden''
     \<and> ft_attr (snd (AccordionItem_xt it)) ''aria_labelledby'' = Some (ai_id it @ ''-heading'')"
  by (simp add: AccordionItem_xt_def accordion_header_def accordion_body_def ft_attr_def)

section \<open>Navigation bar\<close>

text \<open>
  C10. Whatever the navigation bar's fields, the mobile-menu toggle's \<open>aria_controls\<close> and
  \<open>data_collapse_toggle\<close> and the menu container's \<open>id\<close> are the literal \<open>navbar-cta\<close>; two
  navigation bars carry the same menu identifier; the toggle is the last child of the
  button cluster and the menu the last child of the container of the same bar.
\<close>

theorem navbar_fixed_menu_id:
  "ft_attr (render_mobile_menu_button nb) ''aria_controls'' = Some ''navbar-cta''
   \<and> ft_attr (render_mobile_menu_button nb) ''data_collapse_toggle'' = Some ''navbar-cta''
   \<and> ft_attr (render_menu nb) ''id'' = Some ''navbar-cta''
   \<and> ft_attr (render_menu nb') ''id'' = ft_attr (render_menu nb) ''id''
   \<and> ft_children (NavBar_xt nb) = [render_container nb]
   \<and> ft_children (render_container nb) = [render_brand nb, render_buttons nb, render_menu nb]
   \<and> last (ft_children (render_buttons nb)) = render_mobile_menu_button nb"
  by (simp add: render_mobile_menu_button_def render_menu_def ft_attr_def NavBar_xt_def
      render_container_def render_buttons_def)

lemma variant_front_ends:
  "base_cls @ '' '' @ (if a then active_cls else inactive_cls) \<noteq> []
   \<and> \<not> is_space (hd (base_cls @ '' '' @ (if a then active_cls else inactive_cls)))
   \<and> \<not> is_space (last (base_cls @ '' '' @ (if a then active_cls else inactive_cls)))"
  by (simp add: base_cls_def active_cls_def inactive_cls_def is_space_def)

lemma menu_item_cls_trimmed:
  "strip (base_cls @ '' '' @ (if a then active_cls else inactive_cls) @ '' '' @ e) =
     (if list_all is_space e
      then base_cls @ '' '' @ (if a then active_cls else inactive_cls)
      else base_cls @ '' '' @ (if a then active_cls else inactive_cls) @ '' ''
             @ rev (dropWhile is_space (rev e)))"
  using strip_keeps_front [of "base_cls @ '' '' @ (if a then active_cls else inactive_cls)" e]
    variant_front_ends [of a]
  by (simp add: list_all_iff)

text \<open>
  C6. The link of every rendered menu entry has as class the base class, then the active
  class if the entry is active and the inactive class otherwise, then the entry's own
  class, joined by single spaces and stripped: an entry class of whitespace only leaves
  base and variant, any other follows them with its trailing whitespace removed. The
  keyword \<open>aria_current\<close> is \<open>page\<close> for an active entry and \<open>None\<close> otherwise, so the
  attribute is present exactly for active entries.
\<close>

theorem menu_item_class_and_current:
  "\<exists>lnk. ft_children (render_menu_item item) = [lnk]
     \<and> ft_tag lnk = ''a''
     \<and> ft_attr lnk ''cls'' =
          Some (strip (base_cls @ '' ''
                  @ (if nmi_active item then active_cls else inactive_cls)
                  @ '' '' @ nmi_cls item))
     \<and> strip (base_cls @ '' ''
                  @ (if nmi_active item then active_cls else inactive_cls)
                  @ '' '' @ nmi_cls item) =
          (if list_all is_space (nmi_cls item)
           then base_cls @ '' '' @ (if nmi_active item then active_cls else inactive_cls)
           else base_cls @ '' '' @ (if nmi_active item then active_cls else inactive_cls)
                  @ '' '' @ rev (dropWhile is_space (rev (nmi_cls item))))
     \<and> ft_attr lnk ''aria_current'' = (if nmi_active item then Some ''page'' else None)
     \<and> map_of (ft_kwargs lnk) ''aria_current''
          = Some (if nmi_active item then Some ''page'' else None)"
  using menu_item_cls_trimmed [of "nmi_active item" "nmi_cls item"]
  by (simp add: render_menu_item_def ft_attr_def)

section \<open>Accordion\<close>

lemma accordion_header_ids: "ft_ids (accordion_header it) = [ai_id it @ ''-heading'']"
  by (simp add: accordion_header_def)

lemma paragraphs_no_ids:
  "concat (map ft_ids (map (\<lambda>content. FT ''p'' [Txt content] [(''cls'', Some c)]) ps)) = []"
  by (induction ps) simp_all

lemma accordion_body_ids: "ft_ids (accordion_body it) = [ai_id it @ ''-body'']"
  by (simp add: accordion_body_def paragraphs_no_ids)

lemma accordion_items_ids:
  "concat (map ft_ids (map (\<lambda>it. case AccordionItem_xt it of (h, b) \<Rightarrow> Tup [h, b]) its))
   = concat (map (\<lambda>it. [ai_id it @ ''-heading'', ai_id it @ ''-body'']) its)"
  by (induction its) (simp_all add: AccordionItem_xt_def accordion_header_ids accordion_body_ids)

text \<open>
  C5 (as amended). Rendering an accordion never fails: every item is rendered, in order,
  as its header and body pair, whether or not identifiers repeat, so the tree carries the
  identifiers \<open><id>-heading\<close> and \<open><id>-body\<close> of each item as often as the item's
  identifier occurs.
\<close>

theorem accordion_renders_all_items:
  "ft_tag (Accordion_xt acc) = ''div''
   \<and> length (ft_children (Accordion_xt acc)) = length (acc_items acc)
   \<and> ft_ids (Accordion_xt acc) =
        ''accordion-collapse''
        # concat (map (\<lambda>it. [ai_id it @ ''-heading'', ai_id it @ ''-body'']) (acc_items acc))"
  using accordion_items_ids [of "acc_items acc"] by (simp add: Accordion_xt_def)

text \<open>
  C5 as stated fails: two items with the same explicit identifier are rendered, and the
  tree carries each derived identifier twice.
\<close>

theorem accordion_duplicate_id_counterexample:
  "ft_tag (Accordion_xt \<lparr>acc_items =
      [\<lparr>ai_title = ''One'', ai_content = [''first''], ai_id = ''faq''\<rparr>,
       \<lparr>ai_title = ''Two'', ai_content = [''second''], ai_id = ''faq''\<rparr>]\<rparr>) = ''div''
   \<and> ft_ids (Accordion_xt \<lparr>acc_items =
      [\<lparr>ai_title = ''One'', ai_content = [''first''], ai_id = ''faq''\<rparr>,
       \<lparr>ai_title = ''Two'', ai_content = [''second''], ai_id = ''faq''\<rparr>]\<rparr>)
     = [''accordion-collapse'', ''faq-heading'', ''faq-body'', ''faq-heading'', ''faq-body'']"
  by (simp add: Accordion_xt_def AccordionItem_xt_def accordion_header_def accordion_body_def)

section \<open>Attributes of a button\<close>


lemma cls_not_hx_key: "''cls'' \<notin> set (hx_keys h)"
  by (auto simp: hx_keys_def)

lemma button_attrs_map:
  assumes "wf_dict (btn_htmx b)" "wf_dict (btn_additional_attrs b)"
  shows "map_of (button_attrs b) =
           (map_of [(''type'', Some (btn_type b)), (''cls'', Some (join_sp (button_classes b)))]
              ++ map_of (btn_additional_attrs b))
           ++ map_of (hx_entries (btn_htmx b))"
  using assms
  by (simp add: button_attrs_def hx_items_update map_of_dict_update distinct_hx_entries wf_dict_def
      del: map_of.simps)



lemma button_key_order:
  assumes "wf_dict (btn_htmx b)" "wf_dict (btn_additional_attrs b)"
  shows "map fst (button_attrs b) =
           [''type'', ''cls'']
           @ filter (\<lambda>k. k \<notin> {''type'', ''cls''}) (map fst (btn_additional_attrs b))
           @ filter (\<lambda>k. k \<notin> {''type'', ''cls''} \<and> k \<notin> fst ` set (btn_additional_attrs b))
               (hx_keys (btn_htmx b))"
proof -
  let ?d0 = "[(''type'', Some (btn_type b)), (''cls'', Some (join_sp (button_classes b)))]"
  have k1: "map fst (dict_update ?d0 (btn_additional_attrs b)) =
              [''type'', ''cls'']
              @ filter (\<lambda>k. k \<notin> {''type'', ''cls''}) (map fst (btn_additional_attrs b))"
    using keys_dict_update [of "btn_additional_attrs b" ?d0] assms(2)
    by (simp add: wf_dict_def)
  have "map fst (dict_update (dict_update ?d0 (btn_additional_attrs b)) (hx_entries (btn_htmx b)))
        = map fst (dict_update ?d0 (btn_additional_attrs b))
          @ filter (\<lambda>k. k \<notin> set (map fst (dict_update ?d0 (btn_additional_attrs b))))
              (map fst (hx_entries (btn_htmx b)))"
    using assms(1) by (intro keys_dict_update distinct_hx_entries) (simp add: wf_dict_def)
  moreover have "filter (\<lambda>k. k \<notin> set (map fst (dict_update ?d0 (btn_additional_attrs b))))
              (map fst (hx_entries (btn_htmx b)))
        = filter (\<lambda>k. k \<notin> {''type'', ''cls''} \<and> k \<notin> fst ` set (btn_additional_attrs b))
              (hx_keys (btn_htmx b))"
    unfolding k1 keys_hx_entries hx_keys_def by (intro filter_cong) auto
  ultimately show ?thesis
    unfolding k1 by (simp add: button_attrs_def hx_items_update)
qed

lemma button_override_over_base:
  assumes "wf_dict (btn_htmx b)" "wf_dict (btn_additional_attrs b)"
    and "map_of (btn_additional_attrs b) k = Some v" "k \<notin> set (hx_keys (btn_htmx b))"
  shows "map_of (button_attrs b) k = Some v"
proof -
  have "map_of (hx_entries (btn_htmx b)) k = None"
    using assms(4) by (intro map_of_hx_entries_other) (simp add: hx_keys_def image_image)
  then show ?thesis
    using assms by (simp add: button_attrs_map map_add_def del: map_of.simps)
qed

section \<open>Attributes of a form field\<close>

lemma floating_input_cls:
  "map_of (floating_input_attrs f) ''cls'' =
     Some (Some (strip (default_cls @ '' '' @ py_str (dict_get (ff_additional_attrs f) ''cls'' (Some [])))))"
proof -
  have "''cls'' \<notin> fst ` set (filter (\<lambda>p. fst p \<noteq> ''cls'') (ff_additional_attrs f))"
    by auto
  then show ?thesis
    by (simp add: floating_input_attrs_def dict_pop_def input_attrs_of_def
        map_of_dict_update_other cls_not_hx del: dict_set.simps)
      (simp add: map_of_dict_set)
qed

lemma default_cls_ends:
  "default_cls \<noteq> [] \<and> \<not> is_space (hd default_cls) \<and> \<not> is_space (last default_cls)"
  by (simp add: default_cls_def is_space_def)

lemma default_cls_trimmed:
  "strip (default_cls @ '' '' @ e) =
     (if list_all is_space e then default_cls
      else default_cls @ '' '' @ rev (dropWhile is_space (rev e)))"
  using strip_keeps_front [of default_cls e] default_cls_ends
  by (simp add: list_all_iff)

lemma strip_default_cls_extra: "strip (default_cls @ '' '' @ ''extra'') = default_cls @ '' extra''"
  using strip_keeps_front [of default_cls "''extra''"] default_cls_ends
  by (simp add: is_space_def)

lemma strip_default_cls_empty: "strip (default_cls @ '' '' @ []) = default_cls"
  using strip_keeps_front [of default_cls "[]"] default_cls_ends
  by simp

lemma field_class_concatenated:
  assumes "map_of (ff_additional_attrs f) ''cls'' = Some v"
  shows "map_of (floating_input_attrs f) ''cls''
           = Some (Some (strip (default_cls @ '' '' @ py_str v)))"
  using assms by (simp add: floating_input_cls dict_get_def)

lemma base_key_not_hx: "k \<in> set input_base_keys \<Longrightarrow> k \<notin> set (hx_keys h)"
  by (auto simp: input_base_keys_def hx_keys_def)

lemma input_attrs_of_keys:
  assumes "wf_dict (ff_htmx f)" "wf_dict rest"
  shows "map fst (input_attrs_of f c rest) =
           input_base_keys @ hx_keys (ff_htmx f)
           @ filter (\<lambda>k. k \<notin> set input_base_keys \<and> k \<notin> set (hx_keys (ff_htmx f))) (map fst rest)"
proof -
  let ?d1 = "dict_set
            [(''type'', Some (ff_type f)),
             (''name'', Some (ff_name f)),
             (''id'', Some (''floating_'' @ ff_name f)),
             (''placeholder'', Some (ff_placeholder f)),
             (''required'', if ff_required f then Some [] else None),
             (''pattern'', ff_pattern f)]
            ''cls'' (Some (strip (default_cls @ '' '' @ py_str c)))"
  have k1: "map fst ?d1 = input_base_keys"
    by (simp add: input_base_keys_def)
  have hk: "map fst (hx_dict (ff_htmx f)) = hx_keys (ff_htmx f)"
    using assms(1) by (simp add: keys_hx_dict hx_keys_def wf_dict_def)
  have "filter (\<lambda>k. k \<notin> set input_base_keys) (hx_keys (ff_htmx f)) = hx_keys (ff_htmx f)"
    using base_key_not_hx by (intro filter_True) blast
  then have k2: "map fst (dict_update ?d1 (hx_dict (ff_htmx f))) = input_base_keys @ hx_keys (ff_htmx f)"
    using keys_dict_update [of "hx_dict (ff_htmx f)" ?d1] wf_hx_dict [OF assms(1)]
    by (simp only: k1 hk wf_dict_def)
  have "map fst (dict_update (dict_update ?d1 (hx_dict (ff_htmx f))) rest) =
          (input_base_keys @ hx_keys (ff_htmx f))
          @ filter (\<lambda>k. k \<notin> set (input_base_keys @ hx_keys (ff_htmx f))) (map fst rest)"
    using keys_dict_update [of rest "dict_update ?d1 (hx_dict (ff_htmx f))"] assms(2)
    by (simp only: k2 wf_dict_def)
  then show ?thesis
    by (simp add: input_attrs_of_def del: dict_set.simps)
qed

lemma input_attrs_of_map:
  assumes "wf_dict (ff_htmx f)" "wf_dict rest"
  shows "map_of (input_attrs_of f c rest) k =
           (case map_of rest k of Some v \<Rightarrow> Some v
            | None \<Rightarrow> (case map_of (hx_entries (ff_htmx f)) k of Some v \<Rightarrow> Some v
               | None \<Rightarrow> map_of (dict_set
            [(''type'', Some (ff_type f)),
             (''name'', Some (ff_name f)),
             (''id'', Some (''floating_'' @ ff_name f)),
             (''placeholder'', Some (ff_placeholder f)),
             (''required'', if ff_required f then Some [] else None),
             (''pattern'', ff_pattern f)]
            ''cls'' (Some (strip (default_cls @ '' '' @ py_str c)))) k))"
  using assms wf_hx_dict [OF assms(1)]
  by (simp add: input_attrs_of_def map_of_dict_update hx_dict_entries wf_dict_def map_add_def
      del: dict_set.simps split: option.splits)

lemma field_override_wins:
  assumes "wf_dict (ff_htmx f)" "wf_dict (ff_additional_attrs f)"
    and "k \<noteq> ''cls''" "map_of (ff_additional_attrs f) k = Some v"
  shows "map_of (floating_input_attrs f) k = Some v"
  using assms input_attrs_of_map [OF assms(1) wf_dict_without [OF assms(2)]]
  by (simp add: floating_input_attrs_def dict_pop_def map_of_without)

lemma field_behavioral_written:
  assumes "wf_dict (ff_htmx f)" "wf_dict (ff_additional_attrs f)"
    and "map_of (ff_htmx f) k = Some v" "map_of (ff_additional_attrs f) (''hx_'' @ k) = None"
  shows "map_of (floating_input_attrs f) (''hx_'' @ k) = Some (Some v)"
  using assms input_attrs_of_map [OF assms(1) wf_dict_without [OF assms(2)]]
    map_of_hx_entries [of "ff_htmx f" k]
  by (simp add: floating_input_attrs_def dict_pop_def map_of_without)

lemma field_key_order:
  assumes "wf_dict (ff_htmx f)" "wf_dict (ff_additional_attrs f)"
  shows "map fst (floating_input_attrs f) =
           input_base_keys @ hx_keys (ff_htmx f)
           @ filter (\<lambda>k. k \<notin> set input_base_keys \<and> k \<notin> set (hx_keys (ff_htmx f)))
               (map fst (ff_additional_attrs f))"
proof -
  have "filter (\<lambda>k. k \<notin> set input_base_keys \<and> k \<notin> set (hx_keys (ff_htmx f)))
          (map fst (filter (\<lambda>p. fst p \<noteq> ''cls'') (ff_additional_attrs f)))
        = filter (\<lambda>k. k \<notin> set input_base_keys \<and> k \<notin> set (hx_keys (ff_htmx f)))
          (map fst (ff_additional_attrs f))"
    by (rule keys_without_filtered) (simp add: input_base_keys_def)
  then show ?thesis
    using input_attrs_of_keys [OF assms(1) wf_dict_without [OF assms(2)]]
    by (simp add: floating_input_attrs_def dict_pop_def)
qed

lemma field_base_value_kept:
  assumes "wf_dict (ff_htmx f)" "wf_dict (ff_additional_attrs f)"
    and "map_of (ff_additional_attrs f) k = None" "k \<notin> set (hx_keys (ff_htmx f))"
  shows "map_of (floating_input_attrs f) k =
           map_of [(''type'', Some (ff_type f)),
                   (''name'', Some (ff_name f)),
                   (''id'', Some (''floating_'' @ ff_name f)),
                   (''placeholder'', Some (ff_placeholder f)),
                   (''required'', if ff_required f then Some [] else None),
                   (''pattern'', ff_pattern f),
                   (''cls'', Some (strip (default_cls @ '' ''
                       @ py_str (dict_get (ff_additional_attrs f) ''cls'' (Some [])))))] k"
proof -
  let ?c = "dict_get (ff_additional_attrs f) ''cls'' (Some [])"
  let ?rest = "filter (\<lambda>p. fst p \<noteq> ''cls'') (ff_additional_attrs f)"
  have hx: "map_of (hx_entries (ff_htmx f)) k = None"
    using assms(4) by (intro map_of_hx_entries_other) (simp add: hx_keys_def image_image)
  have rest: "map_of ?rest k = None"
    using assms(3) by (simp add: map_of_without)
  have "map_of (input_attrs_of f ?c ?rest) k =
          map_of (dict_set
            [(''type'', Some (ff_type f)),
             (''name'', Some (ff_name f)),
             (''id'', Some (''floating_'' @ ff_name f)),
             (''placeholder'', Some (ff_placeholder f)),
             (''required'', if ff_required f then Some [] else None),
             (''pattern'', ff_pattern f)]
            ''cls'' (Some (strip (default_cls @ '' '' @ py_str ?c)))) k"
    unfolding input_attrs_of_map [OF assms(1) wf_dict_without [OF assms(2)]] hx rest
    by (simp del: dict_set.simps)
  then show ?thesis
    by (simp add: floating_input_attrs_def dict_pop_def)
qed

section \<open>Merging the three attribute sources\<close>

text \<open>
  C1. A button with the htmx entries \<open>post = /form\<close>, \<open>swap = none\<close> and the overrides
  \<open>hx_post = /override\<close>, \<open>title = t\<close> is rendered with exactly these keyword arguments, in
  this order: the base \<open>type\<close> and \<open>cls\<close> with their base values, then \<open>hx_post\<close> with the
  htmx value \<open>/form\<close>, not the override's, then \<open>title\<close>, then \<open>hx_swap\<close>. So the overrides
  are not applied last: the htmx entry decides the colliding key, and an override key
  stands before an htmx key. The input of a form field with the same htmx entries and
  overrides has the base keys with their base values, then \<open>hx_post\<close> with the override's
  value \<open>/override\<close>, then \<open>hx_swap\<close>, then \<open>title\<close>, as the merge is claimed to go.
\<close>

theorem button_htmx_written_after_overrides:
  "map_of (btn_additional_attrs
      ((CustomButton_new ''Go'')
         \<lparr>btn_htmx := [(''post'', ''/form''), (''swap'', ''none'')],
          btn_additional_attrs := [(''hx_post'', Some ''/override''), (''title'', Some ''t'')]\<rparr>))
      ''hx_post'' = Some (Some ''/override'')
   \<and> ft_kwargs (CustomButton_call
      ((CustomButton_new ''Go'')
         \<lparr>btn_htmx := [(''post'', ''/form''), (''swap'', ''none'')],
          btn_additional_attrs := [(''hx_post'', Some ''/override''), (''title'', Some ''t'')]\<rparr>))
     = [(''type'', Some ''button''),
        (''cls'', Some (style_default @ '' '' @ size_base
                          @ '' font-medium rounded-lg text-center me-2 mb-2'')),
        (''hx_post'', Some ''/form''),
        (''title'', Some ''t''),
        (''hx_swap'', Some ''none'')]
   \<and> ft_kwargs (hd (ft_children (fst (floating_input
      ((FormField_new ''user'' ''User'')
         \<lparr>ff_additional_attrs := [(''hx_post'', Some ''/override''), (''title'', Some ''t'')],
          ff_htmx := [(''post'', ''/form''), (''swap'', ''none'')]\<rparr>)))))
     = [(''type'', Some ''text''),
        (''name'', Some ''user''),
        (''id'', Some ''floating_user''),
        (''placeholder'', Some '' ''),
        (''required'', Some []),
        (''pattern'', None),
        (''cls'', Some default_cls),
        (''hx_post'', Some ''/override''),
        (''hx_swap'', Some ''none''),
        (''title'', Some ''t'')]"
  using strip_default_cls_empty
  by (simp add: CustomButton_call_def button_attrs_def CustomButton_new_def button_classes_def
      resolve_style_def resolve_size_def dict_get_def style_classes_def size_classes_def
      floating_input_def floating_input_attrs_def input_attrs_of_def dict_pop_def
      FormField_new_def hx_dict_def py_str_def)

section \<open>The class of a component with a class override\<close>

text \<open>
  C2. A button of style \<open>green\<close>, size \<open>lg\<close> and \<open>pill\<close> with the override \<open>cls = extra\<close> and the
  htmx entry \<open>post = /x\<close> is rendered with the class \<open>extra\<close> alone: the generated classes,
  whose space-joined string is given, are replaced by the override, not extended by it.
  The key \<open>hx_post\<close> is there. A form field with the same override carries the base
  class followed by a space and \<open>extra\<close>.
\<close>

theorem button_class_replaced:
  "ft_attr (CustomButton_call
      \<lparr>btn_label = ''Save'', btn_style = ''green'', btn_type = ''button'', btn_size = ''lg'',
       btn_pill = True, btn_htmx = [(''post'', ''/x'')],
       btn_additional_attrs = [(''cls'', Some ''extra'')]\<rparr>) ''cls'' = Some ''extra''
   \<and> ft_attr (CustomButton_call
      \<lparr>btn_label = ''Save'', btn_style = ''green'', btn_type = ''button'', btn_size = ''lg'',
       btn_pill = True, btn_htmx = [(''post'', ''/x'')],
       btn_additional_attrs = [(''cls'', Some ''extra'')]\<rparr>) ''hx_post'' = Some ''/x''
   \<and> join_sp (button_classes
      \<lparr>btn_label = ''Save'', btn_style = ''green'', btn_type = ''button'', btn_size = ''lg'',
       btn_pill = True, btn_htmx = [(''post'', ''/x'')],
       btn_additional_attrs = [(''cls'', Some ''extra'')]\<rparr>)
     = ''focus:outline-none text-white bg-green-700 hover:bg-green-800 focus:ring-4 focus:ring-green-300 dark:bg-green-600 dark:hover:bg-green-700 dark:focus:ring-green-800 px-5 py-3 text-base font-medium rounded-full text-center me-2 mb-2''
   \<and> map_of (floating_input_attrs
      ((FormField_new ''email'' ''Email'')\<lparr>ff_additional_attrs := [(''cls'', Some ''extra'')]\<rparr>))
      ''cls'' = Some (Some (default_cls @ '' extra''))"
  using strip_default_cls_extra
  by (simp add: CustomButton_call_def button_attrs_def ft_attr_def button_classes_def
      resolve_style_def resolve_size_def dict_get_def style_classes_def size_classes_def
      floating_input_cls FormField_new_def py_str_def)

section \<open>Rendering a form twice\<close>

lemma floating_input_second_render_differs:
  "ft_attr (hd (ft_children (fst (floating_input
      ((FormField_new ''email'' ''Email'')\<lparr>ff_additional_attrs := [(''cls'', Some ''extra'')]\<rparr>)))))
      ''cls'' = Some (default_cls @ '' extra'')
   \<and> ft_attr (hd (ft_children (fst (floating_input (snd (floating_input
      ((FormField_new ''email'' ''Email'')\<lparr>ff_additional_attrs := [(''cls'', Some ''extra'')]\<rparr>)))))))
      ''cls'' = Some default_cls
   \<and> ff_additional_attrs (snd (floating_input
      ((FormField_new ''email'' ''Email'')\<lparr>ff_additional_attrs := [(''cls'', Some ''extra'')]\<rparr>))) = []"
  using strip_default_cls_extra strip_default_cls_empty
  by (simp add: floating_input_def ft_attr_def floating_input_cls dict_pop_def dict_get_def
      py_str_def FormField_new_def)

lemma form_first_render:
  "FloatingLabelForm_xt
      (empty_heap\<lparr>attrs_of := (\<lambda>r. [])(0 := [(''cls'', Some ''extra'')])\<rparr>)
      (FloatingLabelForm_ref
         [\<lparr>fs_fields = [FormField_ref ''email'' ''Email'' 0 0], fs_layout = ''single''\<rparr>] 1)
   = (Inr (FT ''form''
        [FT ''div'' [fst (floating_input
            ((FormField_new ''email'' ''Email'')\<lparr>ff_additional_attrs := [(''cls'', Some ''extra'')]\<rparr>))] [],
         FT ''button'' [Txt ''Submit''] [(''type'', Some ''submit''), (''cls'', Some default_submit_cls)]]
        [(''cls'', Some ''max-w-md mx-auto'')]),
      empty_heap,
      FloatingLabelForm_ref
         [\<lparr>fs_fields = [FormField_ref ''email'' ''Email'' 0 0], fs_layout = ''single''\<rparr>] 1)"
  by (simp add: FloatingLabelForm_xt_def FloatingLabelForm_ref_def render_section_def
      render_submit_button_obj_def hx_dict_def floating_input_obj_def case_prod_beta
      field_at_def FormField_ref_def FormField_new_def empty_heap_def
      floating_input_def dict_pop_def fun_eq_iff)

lemma form_second_render:
  "fst (FloatingLabelForm_xt empty_heap
      (FloatingLabelForm_ref
         [\<lparr>fs_fields = [FormField_ref ''email'' ''Email'' 0 0], fs_layout = ''single''\<rparr>] 1))
   = Inr (FT ''form''
        [FT ''div'' [fst (floating_input (FormField_new ''email'' ''Email''))] [],
         FT ''button'' [Txt ''Submit''] [(''type'', Some ''submit''), (''cls'', Some default_submit_cls)]]
        [(''cls'', Some ''max-w-md mx-auto'')])"
  by (simp add: FloatingLabelForm_xt_def FloatingLabelForm_ref_def render_section_def
      render_submit_button_obj_def hx_dict_def floating_input_obj_def case_prod_beta
      field_at_def FormField_ref_def FormField_new_def empty_heap_def
      floating_input_def dict_pop_def)

lemma field_renders_differ:
  "fst (floating_input (FormField_new ''email'' ''Email''))
   \<noteq> fst (floating_input
       ((FormField_new ''email'' ''Email'')\<lparr>ff_additional_attrs := [(''cls'', Some ''extra'')]\<rparr>))"
  using strip_default_cls_extra strip_default_cls_empty
  by (simp add: floating_input_def floating_input_attrs_def input_attrs_of_def dict_pop_def
      dict_get_def py_str_def FormField_new_def hx_dict_def)

text \<open>
  C4. A field with the override \<open>cls = extra\<close> is rendered the first time with the class
  \<open>default_cls\<close> followed by \<open>extra\<close>, and the second time, from the field as the first
  rendering left it, with \<open>default_cls\<close> alone: the first rendering removed \<open>cls\<close> from the
  field's overrides. Rendering a form that holds such a field leaves the field's
  dictionary in the heap empty, and rendering the form again, on the heap and form that
  the first rendering left, gives a different tree.
\<close>

theorem field_class_lost_on_second_render:
  "ft_attr (hd (ft_children (fst (floating_input
      ((FormField_new ''email'' ''Email'')\<lparr>ff_additional_attrs := [(''cls'', Some ''extra'')]\<rparr>)))))
      ''cls'' = Some (default_cls @ '' extra'')
   \<and> ft_attr (hd (ft_children (fst (floating_input (snd (floating_input
      ((FormField_new ''email'' ''Email'')\<lparr>ff_additional_attrs := [(''cls'', Some ''extra'')]\<rparr>)))))))
      ''cls'' = Some default_cls
   \<and> ff_additional_attrs (snd (floating_input
      ((FormField_new ''email'' ''Email'')\<lparr>ff_additional_attrs := [(''cls'', Some ''extra'')]\<rparr>))) = []
   \<and> attrs_of (fst (snd (FloatingLabelForm_xt
        (empty_heap\<lparr>attrs_of := (\<lambda>r. [])(0 := [(''cls'', Some ''extra'')])\<rparr>)
        (FloatingLabelForm_ref
           [\<lparr>fs_fields = [FormField_ref ''email'' ''Email'' 0 0], fs_layout = ''single''\<rparr>] 1)))) 0
      = []
   \<and> fst (FloatingLabelForm_xt
        (fst (snd (FloatingLabelForm_xt
           (empty_heap\<lparr>attrs_of := (\<lambda>r. [])(0 := [(''cls'', Some ''extra'')])\<rparr>)
           (FloatingLabelForm_ref
              [\<lparr>fs_fields = [FormField_ref ''email'' ''Email'' 0 0], fs_layout = ''single''\<rparr>] 1))))
        (snd (snd (FloatingLabelForm_xt
           (empty_heap\<lparr>attrs_of := (\<lambda>r. [])(0 := [(''cls'', Some ''extra'')])\<rparr>)
           (FloatingLabelForm_ref
              [\<lparr>fs_fields = [FormField_ref ''email'' ''Email'' 0 0], fs_layout = ''single''\<rparr>] 1)))))
     \<noteq> fst (FloatingLabelForm_xt
        (empty_heap\<lparr>attrs_of := (\<lambda>r. [])(0 := [(''cls'', Some ''extra'')])\<rparr>)
        (FloatingLabelForm_ref
           [\<lparr>fs_fields = [FormField_ref ''email'' ''Email'' 0 0], fs_layout = ''single''\<rparr>] 1))"
  using floating_input_second_render_differs field_renders_differ
  by (simp only: form_first_render form_second_render fst_conv snd_conv)
    (simp add: empty_heap_def)

section \<open>Sections with two columns\<close>










section \<open>The submit control\<close>

lemma render_submit_button_obj_node:
  "fst (render_submit_button_obj h form) = fst (render_submit_button (form_at h form))"
  by (cases "flf_custom_submit_button form")
    (simp_all add: render_submit_button_obj_def render_submit_button_def form_at_def
      button_at_def Let_def)




end
